theory Spec2Isabelle
  imports Main
begin

section \<open>Data model of the Edge stack manager\<close>

text \<open>
  The Go enumerations \<open>edgeStackStatus\<close>, \<open>edgeStackAction\<close> and \<open>engineType\<close> start
  at \<open>iota = 1\<close>. A stack record is always created with an explicit status and action,
  so their zero values never occur. The manager's engine type is zero until
  \<open>SetEngineStatus\<close> is called: \<open>EngineTypeZero\<close> stands for that value.
\<close>

datatype edgeStackStatus =
  StatusPending | StatusDone | StatusError | StatusDeploying | StatusRetry

datatype edgeStackAction =
  actionDeploy | actionUpdate | actionDelete | actionIdle

datatype engineType =
  EngineTypeZero
  | EngineTypeDockerStandalone
  | EngineTypeDockerSwarm
  | EngineTypeKubernetes
  | EngineTypeNomad

definition RetryInterval :: int where
  "RetryInterval = 3600 div 5"

definition MaxRetries :: int where
  "MaxRetries = RetryInterval * 24 * 7"

text \<open>
  Modelled from the spec: the type \<open>agent.RegistryCredentials\<close> is declared outside the
  source files at hand; the spec describes a credential as a tuple of registry, username
  and password.
\<close>

record registryCredentials =
  registry :: string
  username :: string
  password :: string

text \<open>
  The struct \<open>edgeStack\<close>. Go's \<open>int\<close> is modelled by \<open>int\<close>: identifiers and versions
  are only compared, and the retry counter grows by one per worker iteration, so it stays
  far from the machine bound.
\<close>

record edgeStack =
  ID :: int
  Name :: string
  Version :: int
  FileFolder :: string
  FileName :: string
  Status :: edgeStackStatus
  Action :: edgeStackAction
  RegistryCredentials :: "registryCredentials list"
  Namespace :: string
  PrePullImage :: bool
  RePullImage :: bool
  Retries :: int

text \<open>
  The answer of \<open>GetEdgeStackConfig\<close> and the argument of \<open>DeployStack\<close> and
  \<open>DeleteStack\<close> (\<open>client.EdgeStackData\<close>), with the fields the manager reads.
\<close>

record edgeStackConfig =
  cfgName :: string
  cfgFileContent :: string
  cfgRegistryCredentials :: "registryCredentials list"
  cfgNamespace :: string
  cfgPrePullImage :: bool
  cfgRePullImage :: bool

record edgeStackData =
  dataID :: int
  dataVersion :: int
  dataStackFileContent :: string
  dataName :: string
  dataRegistryCredentials :: "registryCredentials list"
  dataPrePullImage :: bool
  dataRePullImage :: bool

text \<open>A Go \<open>error\<close> is represented by its message, the value of \<open>err.Error()\<close>.\<close>

type_synonym error = string

datatype statusCode =
  EdgeStackStatusAcknowledged
  | EdgeStackStatusImagesPulled
  | EdgeStackStatusOk
  | EdgeStackStatusError

subsection \<open>The collaborators\<close>

text \<open>
  Every call the manager makes to the coordinator client, the file system or the deployer
  is recorded, in order, as an event. The deployer events carry as first argument the key
  of the stack on whose behalf the call is made; this is bookkeeping, the deployer itself
  receives the project name and the file list only.
\<close>

datatype event =
  CallGetEdgeStackConfig int
  | CallSetEdgeStackStatus int statusCode string
  | CallDeleteEdgeStackStatus int
  | CallWriteFile string string string
  | CallRemoveAll string
  | CallPull int string "string list"
  | CallDeploy int string "string list" string
  | CallRemove int string "string list"

text \<open>
  The collaborators are parameters. Each fallible call answers as a function of the
  history of calls made so far, so that the same call may succeed at one time and fail at
  another. \<open>AddImagePullSecrets\<close> (package \<open>edge/yaml\<close>), \<open>filepath.Dir\<close> and
  \<open>time.ParseDuration\<close> are pure; \<open>EdgeStackFilesPath\<close> and
  \<open>EdgeStackQueueSleepInterval\<close> are the package variables of \<open>agent\<close>.
\<close>

record env =
  GetEdgeStackConfig :: "event list \<Rightarrow> int \<Rightarrow> error + edgeStackConfig"
  SetEdgeStackStatus :: "event list \<Rightarrow> int \<Rightarrow> statusCode \<Rightarrow> string \<Rightarrow> error option"
  DeleteEdgeStackStatus :: "event list \<Rightarrow> int \<Rightarrow> error option"
  WriteFile :: "event list \<Rightarrow> string \<Rightarrow> string \<Rightarrow> string \<Rightarrow> error option"
  RemoveAll :: "event list \<Rightarrow> string \<Rightarrow> error option"
  Pull :: "event list \<Rightarrow> string \<Rightarrow> string list \<Rightarrow> error option"
  Deploy :: "event list \<Rightarrow> string \<Rightarrow> string list \<Rightarrow> string \<Rightarrow> error option"
  Remove :: "event list \<Rightarrow> string \<Rightarrow> string list \<Rightarrow> error option"
  buildDeployerService :: "event list \<Rightarrow> engineType \<Rightarrow> error option"
  AddImagePullSecrets :: "string \<Rightarrow> registryCredentials list \<Rightarrow> string"
  filepathDir :: "string \<Rightarrow> string"
  ParseDuration :: "string \<Rightarrow> error + int"
  EdgeStackFilesPath :: string
  EdgeStackQueueSleepInterval :: string

subsection \<open>The manager\<close>

text \<open>
  The worker goroutine is followed through the points at which it takes the mutex:
  \<open>WIdle\<close> at the head of its loop, \<open>WPull\<close> before \<open>pullImages\<close>, \<open>WDeploy\<close> between
  \<open>pullImages\<close> and \<open>deployStack\<close>, \<open>WDelete\<close> before \<open>deleteStack\<close>. It holds the key
  of the stack it selected, the project name and the manifest path.
\<close>

datatype workerState =
  WIdle
  | WPull int string string
  | WDeploy int string string
  | WDelete int string string

text \<open>
  The struct \<open>StackManager\<close>. The table maps a stack identifier to its record; a pointer
  to a record is represented by the record's key (the code only ever stores a record
  under its own \<open>ID\<close>). \<open>stopSignal\<close> tells whether the channel is non-nil. The client,
  the deployer and the assets path belong to the collaborators. \<open>workers\<close> counts the
  goroutines launched by \<open>Start\<close>, \<open>worker\<close> is the state of the worker and \<open>calls\<close> the
  history of calls made.
\<close>

record StackManager =
  engineType :: engineType
  stacks :: "int \<rightharpoonup> edgeStack"
  stopSignal :: bool
  isEnabled :: bool
  workers :: nat
  worker :: workerState
  calls :: "event list"

definition NewStackManager :: StackManager where
  "NewStackManager =
     \<lparr>engineType = EngineTypeZero, stacks = Map.empty, stopSignal = False,
      isEnabled = False, workers = 0, worker = WIdle, calls = []\<rparr>"

section \<open>Formatting\<close>

text \<open>The verb \<open>%d\<close> of \<open>fmt.Sprintf\<close>: decimal digits, with a minus sign when negative.\<close>

fun showNat :: "nat \<Rightarrow> string" where
  "showNat n =
     (if n < 10 then [''0123456789'' ! n]
      else showNat (n div 10) @ [''0123456789'' ! (n mod 10)])"

declare showNat.simps [simp del]

definition showInt :: "int \<Rightarrow> string" where
  "showInt i = (if i < 0 then CHR ''-'' # showNat (nat (- i)) else showNat (nat i))"

section \<open>The reconciler\<close>

text \<open>
  In \<open>processStack\<close> the variable \<open>stack\<close> is either the record of the table (a pointer:
  every assignment to it is seen in the table at once) or a fresh record that enters the
  table only at the end. \<open>writeBack\<close> makes an assignment visible in the first case.
\<close>

definition writeBack :: "bool \<Rightarrow> int \<Rightarrow> edgeStack \<Rightarrow> StackManager \<Rightarrow> StackManager" where
  "writeBack known k stack m = (if known then m\<lparr>stacks := (stacks m)(k \<mapsto> stack)\<rparr> else m)"

definition fetchAndWrite ::
  "env \<Rightarrow> StackManager \<Rightarrow> int \<Rightarrow> bool \<Rightarrow> edgeStack \<Rightarrow> error option \<times> StackManager" where
  "fetchAndWrite e m stackID known stack =
     (let tr1 = calls m @ [CallGetEdgeStackConfig (ID stack)] in
      case GetEdgeStackConfig e (calls m) (ID stack) of
        Inl err \<Rightarrow> (Some err, writeBack known stackID stack (m\<lparr>calls := tr1\<rparr>))
      | Inr stackConfig \<Rightarrow>
          (let stack1 = stack\<lparr>Name := cfgName stackConfig,
                              RegistryCredentials := cfgRegistryCredentials stackConfig,
                              Namespace := cfgNamespace stackConfig,
                              PrePullImage := cfgPrePullImage stackConfig,
                              RePullImage := cfgRePullImage stackConfig\<rparr>;
               folder = EdgeStackFilesPath e @ ''/'' @ showInt stackID;
               fileName0 = (if engineType m = EngineTypeKubernetes
                            then Name stack1 @ ''.yml'' else ''docker-compose.yml'');
               fileName = (if engineType m = EngineTypeNomad
                           then Name stack1 @ ''.hcl'' else fileName0);
               fileContent =
                 (if engineType m = EngineTypeKubernetes
                     \<and> length (cfgRegistryCredentials stackConfig) > 0
                  then AddImagePullSecrets e (cfgFileContent stackConfig)
                         (cfgRegistryCredentials stackConfig)
                  else cfgFileContent stackConfig);
               tr2 = tr1 @ [CallWriteFile folder fileName fileContent]
           in case WriteFile e tr1 folder fileName fileContent of
                Some err \<Rightarrow> (Some err, writeBack known stackID stack1 (m\<lparr>calls := tr2\<rparr>))
              | None \<Rightarrow>
                  (let stack2 = stack1\<lparr>FileFolder := folder, FileName := fileName\<rparr>
                   in (SetEdgeStackStatus e tr2 (ID stack2) EdgeStackStatusAcknowledged '''',
                       (writeBack known stackID stack2 m)
                         \<lparr>stacks := (stacks (writeBack known stackID stack2 m))
                                      (ID stack2 \<mapsto> stack2),
                          calls := tr2 @ [CallSetEdgeStackStatus (ID stack2)
                                            EdgeStackStatusAcknowledged '''']\<rparr>))))"

definition processStack ::
  "env \<Rightarrow> StackManager \<Rightarrow> int \<Rightarrow> int \<Rightarrow> error option \<times> StackManager" where
  "processStack e m stackID version =
     (case stacks m stackID of
        Some stack \<Rightarrow>
          if Version stack = version then (None, m)
          else fetchAndWrite e m stackID True
                 (stack\<lparr>Action := actionUpdate, Version := version, Status := StatusPending\<rparr>)
      | None \<Rightarrow>
          fetchAndWrite e m stackID False
            \<lparr>ID = stackID, Name = [], Version = version, FileFolder = [], FileName = [],
             Status = StatusPending, Action = actionDeploy, RegistryCredentials = [],
             Namespace = [], PrePullImage = False, RePullImage = False, Retries = 0\<rparr>)"

text \<open>
  \<open>processRemovedStacks\<close> visits every record of the table once and changes the visited
  record only, so the order of the visit does not show in the result.
\<close>

definition processRemovedStacks :: "StackManager \<Rightarrow> (int \<times> int) list \<Rightarrow> StackManager" where
  "processRemovedStacks m pollResponseStacks =
     m\<lparr>stacks := (\<lambda>stackID.
          case stacks m stackID of
            None \<Rightarrow> None
          | Some stack \<Rightarrow>
              if map_of pollResponseStacks stackID = None
              then Some (stack\<lparr>Action := actionDelete, Status := StatusPending\<rparr>)
              else Some stack)\<rparr>"

text \<open>
  The snapshot is a Go map; it is given as the list of its entries in the order in which
  the \<open>range\<close> statement happens to visit them.
\<close>

fun processStacks ::
  "env \<Rightarrow> StackManager \<Rightarrow> (int \<times> int) list \<Rightarrow> error option \<times> StackManager" where
  "processStacks e m [] = (None, m)"
| "processStacks e m ((stackID, version) # rest) =
     (case processStack e m stackID version of
        (Some err, m') \<Rightarrow> (Some err, m')
      | (None, m') \<Rightarrow> processStacks e m' rest)"

definition UpdateStacksStatus ::
  "env \<Rightarrow> StackManager \<Rightarrow> (int \<times> int) list \<Rightarrow> error option \<times> StackManager" where
  "UpdateStacksStatus e m pollResponseStacks =
     (if \<not> isEnabled m then (None, m)
      else case processStacks e m pollResponseStacks of
             (Some err, m') \<Rightarrow> (Some err, m')
           | (None, m') \<Rightarrow> (None, processRemovedStacks m' pollResponseStacks))"

text \<open>
  \<open>buildDeployerParams\<close> is the body of \<open>DeployStack\<close> and \<open>DeleteStack\<close>. The
  manifest is written before the table is looked at, and not at all for a deletion.
\<close>

definition buildDeployerParams ::
  "env \<Rightarrow> StackManager \<Rightarrow> edgeStackData \<Rightarrow> bool \<Rightarrow> error option \<times> StackManager" where
  "buildDeployerParams e m stackData deleteStack =
     (let folder = EdgeStackFilesPath e @ ''/'' @ showInt (dataID stackData);
          fileName0 = (if engineType m = EngineTypeKubernetes
                       then dataName stackData @ ''.yml'' else ''docker-compose.yml'');
          fileContent =
            (if engineType m = EngineTypeKubernetes
                \<and> length (dataRegistryCredentials stackData) > 0
             then AddImagePullSecrets e (dataStackFileContent stackData)
                    (dataRegistryCredentials stackData)
             else dataStackFileContent stackData);
          fileName = (if engineType m = EngineTypeNomad
                      then dataName stackData @ ''.hcl'' else fileName0);
          written = (if deleteStack then None
                     else WriteFile e (calls m) folder fileName fileContent);
          m1 = (if deleteStack then m
                else m\<lparr>calls := calls m @ [CallWriteFile folder fileName fileContent]\<rparr>);
          fill = (\<lambda>stack. stack\<lparr>Name := dataName stackData,
                                   RegistryCredentials := dataRegistryCredentials stackData,
                                   Status := StatusPending,
                                   Version := dataVersion stackData,
                                   PrePullImage := dataPrePullImage stackData,
                                   RePullImage := dataRePullImage stackData,
                                   FileFolder := folder,
                                   FileName := fileName\<rparr>);
          store = (\<lambda>k stack.
                     (None, m1\<lparr>stacks := ((stacks m1)(k \<mapsto> fill stack))
                                            (ID stack \<mapsto> fill stack)\<rparr>))
      in case written of
           Some err \<Rightarrow> (Some err, m1)
         | None \<Rightarrow>
             (case stacks m1 (dataID stackData) of
                Some stack \<Rightarrow>
                  if deleteStack
                  then store (dataID stackData) (stack\<lparr>Action := actionDelete\<rparr>)
                  else if Version stack = dataVersion stackData then (None, m1)
                  else store (dataID stackData) (stack\<lparr>Action := actionUpdate\<rparr>)
              | None \<Rightarrow>
                  store (dataID stackData)
                    \<lparr>ID = dataID stackData, Name = [], Version = 0, FileFolder = [],
                     FileName = [], Status = StatusPending, Action = actionDeploy,
                     RegistryCredentials = [], Namespace = [], PrePullImage = False,
                     RePullImage = False, Retries = 0\<rparr>))"

definition DeployStack ::
  "env \<Rightarrow> StackManager \<Rightarrow> edgeStackData \<Rightarrow> error option \<times> StackManager" where
  "DeployStack e m stackData = buildDeployerParams e m stackData False"

definition DeleteStack ::
  "env \<Rightarrow> StackManager \<Rightarrow> edgeStackData \<Rightarrow> error option \<times> StackManager" where
  "DeleteStack e m stackData = buildDeployerParams e m stackData True"

section \<open>The credential query\<close>

text \<open>
  \<open>GetEdgeRegistryCredentials\<close> ranges over the table and answers at the first record
  found deploying. Go visits the keys of a map in an order of its own choosing: the
  order is the argument \<open>ks\<close>. The result \<open>nil\<close> is the empty list.
\<close>

fun firstDeploying :: "(int \<rightharpoonup> edgeStack) \<Rightarrow> int list \<Rightarrow> registryCredentials list" where
  "firstDeploying t [] = []"
| "firstDeploying t (k # ks) =
     (case t k of
        None \<Rightarrow> firstDeploying t ks
      | Some stack \<Rightarrow>
          if Status stack = StatusDeploying then RegistryCredentials stack
          else firstDeploying t ks)"

definition GetEdgeRegistryCredentials :: "StackManager \<Rightarrow> int list \<Rightarrow> registryCredentials list" where
  "GetEdgeRegistryCredentials m ks = firstDeploying (stacks m) ks"

section \<open>The lifecycle\<close>

definition Stop :: "StackManager \<Rightarrow> StackManager" where
  "Stop m = (if stopSignal m then m\<lparr>stopSignal := False, isEnabled := False\<rparr> else m)"

text \<open>
  \<open>Start\<close> enables the manager and opens the channel before it parses the interval; the
  goroutine is launched after the parse.
\<close>

definition Start :: "env \<Rightarrow> StackManager \<Rightarrow> error option \<times> StackManager" where
  "Start e m =
     (if stopSignal m then (None, m)
      else (let m1 = m\<lparr>isEnabled := True, stopSignal := True\<rparr>
            in case ParseDuration e (EdgeStackQueueSleepInterval e) of
                 Inl err \<Rightarrow> (Some err, m1)
               | Inr queueSleepInterval \<Rightarrow> (None, m1\<lparr>workers := workers m1 + 1\<rparr>)))"

definition SetEngineStatus ::
  "env \<Rightarrow> StackManager \<Rightarrow> engineType \<Rightarrow> error option \<times> StackManager" where
  "SetEngineStatus e m engineStatus =
     (if engineStatus = engineType m then (None, m)
      else (let m1 = Stop (m\<lparr>engineType := engineStatus\<rparr>)
            in (buildDeployerService e (calls m1) engineStatus, m1)))"

section \<open>The worker\<close>

text \<open>
  \<open>nextPendingStack\<close> returns the first pending record that its range over the table
  meets, in the order \<open>ks\<close> of the visit. When there is none, a second range turns every
  record waiting for a retry into a pending one and the result is \<open>nil\<close>.
\<close>

fun firstPending :: "(int \<rightharpoonup> edgeStack) \<Rightarrow> int list \<Rightarrow> int option" where
  "firstPending t [] = None"
| "firstPending t (k # ks) =
     (case t k of
        None \<Rightarrow> firstPending t ks
      | Some stack \<Rightarrow> if Status stack = StatusPending then Some k else firstPending t ks)"

definition nextPendingStack :: "StackManager \<Rightarrow> int list \<Rightarrow> int option \<times> StackManager" where
  "nextPendingStack m ks =
     (case firstPending (stacks m) ks of
        Some k \<Rightarrow> (Some k, m)
      | None \<Rightarrow>
          (None, m\<lparr>stacks := (\<lambda>k.
             case stacks m k of
               None \<Rightarrow> None
             | Some stack \<Rightarrow>
                 if Status stack = StatusRetry then Some (stack\<lparr>Status := StatusPending\<rparr>)
                 else Some stack)\<rparr>))"

text \<open>
  In the three functions below \<open>k\<close> is the pointer \<open>stack\<close> of the source. The worker
  got it from the table, and only the worker removes records, so the record is there; the
  functions leave the manager as it is otherwise.
\<close>

definition pullImages ::
  "env \<Rightarrow> StackManager \<Rightarrow> int \<Rightarrow> string \<Rightarrow> string \<Rightarrow> error option \<times> StackManager" where
  "pullImages e m k stackName stackFileLocation =
     (case stacks m k of
        None \<Rightarrow> (None, m)
      | Some stack \<Rightarrow>
          if PrePullImage stack \<or> RePullImage stack then
            (let stack1 = stack\<lparr>Retries := Retries stack + 1\<rparr> in
             if Retries stack1 \<le> RetryInterval \<or> Retries stack1 mod RetryInterval = 0 then
               (let stack2 = stack1\<lparr>Status := StatusDeploying\<rparr>;
                    tr1 = calls m @ [CallPull k stackName [stackFileLocation]]
                in case Pull e (calls m) stackName [stackFileLocation] of
                     None \<Rightarrow>
                       (None,
                        m\<lparr>stacks := (stacks m)(k \<mapsto> stack2\<lparr>Action := actionIdle\<rparr>),
                          calls := tr1 @ [CallSetEdgeStackStatus (ID stack2)
                                            EdgeStackStatusImagesPulled '''']\<rparr>)
                   | Some err \<Rightarrow>
                       if Retries stack2 < MaxRetries
                       then (Some err,
                             m\<lparr>stacks := (stacks m)(k \<mapsto> stack2\<lparr>Status := StatusRetry\<rparr>),
                               calls := tr1\<rparr>)
                       else (Some err,
                             m\<lparr>stacks := (stacks m)(k \<mapsto> stack2\<lparr>Status := StatusError\<rparr>),
                               calls := tr1 @ [CallSetEdgeStackStatus (ID stack2)
                                                 EdgeStackStatusError err]\<rparr>))
             else (Some ''skip pulling'', m\<lparr>stacks := (stacks m)(k \<mapsto> stack1)\<rparr>))
          else (None, m))"

definition deployStack ::
  "env \<Rightarrow> StackManager \<Rightarrow> int \<Rightarrow> string \<Rightarrow> string \<Rightarrow> StackManager" where
  "deployStack e m k stackName stackFileLocation =
     (case stacks m k of
        None \<Rightarrow> m
      | Some stack \<Rightarrow>
          (let stack1 = stack\<lparr>Status := StatusDeploying, Action := actionIdle\<rparr>;
               tr1 = calls m @ [CallDeploy k stackName [stackFileLocation] (Namespace stack1)]
           in case Deploy e (calls m) stackName [stackFileLocation] (Namespace stack1) of
                Some err \<Rightarrow>
                  (let stack2 = stack1\<lparr>Status := StatusError\<rparr>
                   in m\<lparr>stacks := ((stacks m)(k \<mapsto> stack2))(ID stack2 \<mapsto> stack2),
                        calls := tr1 @ [CallSetEdgeStackStatus (ID stack2)
                                          EdgeStackStatusError err]\<rparr>)
              | None \<Rightarrow>
                  (let stack2 = stack1\<lparr>Status := StatusDone\<rparr>
                   in m\<lparr>stacks := ((stacks m)(k \<mapsto> stack2))(ID stack2 \<mapsto> stack2),
                        calls := tr1 @ [CallSetEdgeStackStatus (ID stack2)
                                          EdgeStackStatusOk '''']\<rparr>)))"

definition deleteStack ::
  "env \<Rightarrow> StackManager \<Rightarrow> int \<Rightarrow> string \<Rightarrow> string \<Rightarrow> StackManager" where
  "deleteStack e m k stackName stackFileLocation =
     (case stacks m k of
        None \<Rightarrow> m
      | Some stack \<Rightarrow>
          (let tr1 = calls m @ [CallRemove k stackName [stackFileLocation]] in
           case Remove e (calls m) stackName [stackFileLocation] of
             Some err \<Rightarrow> m\<lparr>calls := tr1\<rparr>
           | None \<Rightarrow>
               (let tr2 = tr1 @ [CallRemoveAll (filepathDir e stackFileLocation)] in
                case RemoveAll e tr1 (filepathDir e stackFileLocation) of
                  Some err \<Rightarrow> m\<lparr>calls := tr2\<rparr>
                | None \<Rightarrow>
                    (let tr3 = tr2 @ [CallDeleteEdgeStackStatus (ID stack)] in
                     case DeleteEdgeStackStatus e tr2 (ID stack) of
                       Some err \<Rightarrow> m\<lparr>calls := tr3\<rparr>
                     | None \<Rightarrow> m\<lparr>stacks := (stacks m)(ID stack := None),
                                  calls := tr3\<rparr>))))"

text \<open>
  The head of the loop body: the selection, the project name and the manifest path, and
  the test of the action that decides between the pull and the removal. When nothing is
  pending the worker sleeps and starts again.
\<close>

definition workerSelect :: "StackManager \<Rightarrow> int list \<Rightarrow> StackManager" where
  "workerSelect m ks =
     (case nextPendingStack m ks of
        (None, m') \<Rightarrow> m'\<lparr>worker := WIdle\<rparr>
      | (Some k, m') \<Rightarrow>
          (case stacks m' k of
             None \<Rightarrow> m'\<lparr>worker := WIdle\<rparr>
           | Some stack \<Rightarrow>
               (let stackName = ''edge_'' @ Name stack;
                    stackFileLocation = FileFolder stack @ ''/'' @ FileName stack
                in if Action stack = actionDeploy \<or> Action stack = actionUpdate
                   then m'\<lparr>worker := WPull k stackName stackFileLocation\<rparr>
                   else if Action stack = actionDelete
                   then m'\<lparr>worker := WDelete k stackName stackFileLocation\<rparr>
                   else m'\<lparr>worker := WIdle\<rparr>)))"

text \<open>The rest of the loop body, one section under the mutex at a time.\<close>

definition workerStep :: "env \<Rightarrow> StackManager \<Rightarrow> StackManager" where
  "workerStep e m =
     (case worker m of
        WIdle \<Rightarrow> m
      | WPull k stackName stackFileLocation \<Rightarrow>
          (case pullImages e m k stackName stackFileLocation of
             (None, m') \<Rightarrow> m'\<lparr>worker := WDeploy k stackName stackFileLocation\<rparr>
           | (Some err, m') \<Rightarrow> m'\<lparr>worker := WIdle\<rparr>)
      | WDeploy k stackName stackFileLocation \<Rightarrow>
          (deployStack e m k stackName stackFileLocation)\<lparr>worker := WIdle\<rparr>
      | WDelete k stackName stackFileLocation \<Rightarrow>
          (deleteStack e m k stackName stackFileLocation)\<lparr>worker := WIdle\<rparr>)"

text \<open>One whole iteration of the worker's loop, with nothing running in between.\<close>

definition workerIteration :: "env \<Rightarrow> int list \<Rightarrow> StackManager \<Rightarrow> StackManager" where
  "workerIteration e ks m = workerStep e (workerStep e (workerSelect m ks))"

section \<open>The manager and its worker running together\<close>

text \<open>
  The callers of the manager and the worker goroutine take turns at the mutex. An
  operation is a call of an entry point, or the worker going on to the next point at
  which it takes the mutex.
\<close>

datatype operation =
  OpStart
  | OpStop
  | OpSetEngineStatus engineType
  | OpUpdateStacksStatus "(int \<times> int) list"
  | OpDeployStack edgeStackData
  | OpDeleteStack edgeStackData
  | OpWorker "int list"

fun perform :: "env \<Rightarrow> operation \<Rightarrow> StackManager \<Rightarrow> StackManager" where
  "perform e OpStart m = snd (Start e m)"
| "perform e OpStop m = Stop m"
| "perform e (OpSetEngineStatus engineStatus) m = snd (SetEngineStatus e m engineStatus)"
| "perform e (OpUpdateStacksStatus pollResponseStacks) m =
     snd (UpdateStacksStatus e m pollResponseStacks)"
| "perform e (OpDeployStack stackData) m = snd (DeployStack e m stackData)"
| "perform e (OpDeleteStack stackData) m = snd (DeleteStack e m stackData)"
| "perform e (OpWorker ks) m =
     (if worker m = WIdle then workerSelect m ks else workerStep e m)"

definition run :: "env \<Rightarrow> operation list \<Rightarrow> StackManager \<Rightarrow> StackManager" where
  "run e ops m = fold (perform e) ops m"

section \<open>Example configurations\<close>

text \<open>
  A coordinator, a file system and a deployer that never fail, the configuration of a
  stack named \<open>web\<close>, and a running manager whose table holds that stack.
\<close>

definition webConfig :: edgeStackConfig where
  "webConfig =
     \<lparr>cfgName = ''web'', cfgFileContent = ''services: {}'', cfgRegistryCredentials = [],
      cfgNamespace = ''default'', cfgPrePullImage = True, cfgRePullImage = False\<rparr>"

definition calmEnv :: env where
  "calmEnv =
     \<lparr>GetEdgeStackConfig = (\<lambda>tr k. Inr webConfig),
      SetEdgeStackStatus = (\<lambda>tr k c msg. None),
      DeleteEdgeStackStatus = (\<lambda>tr k. None),
      WriteFile = (\<lambda>tr folder fileName fileContent. None),
      RemoveAll = (\<lambda>tr path. None),
      Pull = (\<lambda>tr name files. None),
      Deploy = (\<lambda>tr name files namespace. None),
      Remove = (\<lambda>tr name files. None),
      buildDeployerService = (\<lambda>tr k. None),
      AddImagePullSecrets = (\<lambda>fileContent credentials. fileContent),
      filepathDir = (\<lambda>path. takeWhile (\<lambda>c. c \<noteq> CHR ''/'') path),
      ParseDuration = (\<lambda>s. Inr 5000000000),
      EdgeStackFilesPath = ''stacks'',
      EdgeStackQueueSleepInterval = ''5s''\<rparr>"

definition webStack :: edgeStack where
  "webStack =
     \<lparr>ID = 7, Name = ''web'', Version = 1, FileFolder = ''stacks/7'',
      FileName = ''docker-compose.yml'', Status = StatusPending, Action = actionDeploy,
      RegistryCredentials = [], Namespace = ''default'', PrePullImage = True,
      RePullImage = False, Retries = 0\<rparr>"

definition webManager :: StackManager where
  "webManager =
     \<lparr>engineType = EngineTypeDockerStandalone, stacks = [7 \<mapsto> webStack],
      stopSignal = True, isEnabled = True, workers = 1, worker = WIdle, calls = []\<rparr>"

text \<open>
  A manager on Kubernetes with an empty table and a stack pushed by the coordinator; a
  deployer whose pulls fail and a manager whose worker is about to pull for the stack
  \<open>web\<close>, with a given retry counter; a stack marked for deletion and a file system that
  refuses to remove its directory; a table with a stack being deployed.
\<close>

definition kubeManager :: StackManager where
  "kubeManager =
     \<lparr>engineType = EngineTypeKubernetes, stacks = Map.empty, stopSignal = True,
      isEnabled = True, workers = 1, worker = WIdle, calls = []\<rparr>"

definition webData :: edgeStackData where
  "webData =
     \<lparr>dataID = 42, dataVersion = 3, dataStackFileContent = ''kind: Deployment'',
      dataName = ''web'', dataRegistryCredentials = [], dataPrePullImage = False,
      dataRePullImage = False\<rparr>"

definition stormEnv :: env where
  "stormEnv = calmEnv\<lparr>Pull := (\<lambda>tr name files. Some ''pull failed'')\<rparr>"

definition pullingManager :: "int \<Rightarrow> StackManager" where
  "pullingManager r =
     webManager\<lparr>stacks := [7 \<mapsto> webStack\<lparr>Retries := r\<rparr>],
                worker := WPull 7 ''edge_web'' ''stacks/7/docker-compose.yml''\<rparr>"

definition goneStack :: edgeStack where
  "goneStack = webStack\<lparr>Action := actionDelete\<rparr>"

definition goneManager :: StackManager where
  "goneManager = webManager\<lparr>stacks := [7 \<mapsto> goneStack]\<rparr>"

definition busyEnv :: env where
  "busyEnv = calmEnv\<lparr>RemoveAll := (\<lambda>tr path. Some ''directory busy'')\<rparr>"

definition deployingManager :: StackManager where
  "deployingManager =
     webManager\<lparr>stacks :=
       [7 \<mapsto> webStack\<lparr>Status := StatusDeploying,
                       RegistryCredentials :=
                         [\<lparr>registry = ''registry.local'', username = ''edge'',
                           password = ''secret''\<rparr>]\<rparr>,
        8 \<mapsto> webStack\<lparr>ID := 8\<rparr>]\<rparr>"

definition brokenEnv :: env where
  "brokenEnv = calmEnv\<lparr>ParseDuration := (\<lambda>s. Inl ''time: invalid duration'')\<rparr>"

definition fullDiskEnv :: env where
  "fullDiskEnv =
     calmEnv\<lparr>WriteFile := (\<lambda>tr folder fileName fileContent.
                 if length tr < 3 then None else Some ''no space left on device'')\<rparr>"

section \<open>The reconciler: one entry of a snapshot\<close>

text \<open>
  Claim C1. An entry (stack id, version) of a snapshot is processed by \<open>processStack\<close>.
  When the coordinator answers the configuration request and the manifest is written:
  for an identifier that is not in the table, a record with action Deploy, status Pending
  and the given version is created from the configuration fetched, the manifest is
  written, the record is inserted and Acknowledged is reported; for an identifier in the
  table with the same version nothing changes; for an identifier in the table with
  another version the record gets action Update, status Pending and the new version, the
  configuration is fetched again, the manifest written again and Acknowledged reported.
\<close>

theorem processStack_transitions:
  assumes fetch: "GetEdgeStackConfig e (calls m) stackID = Inr cfg"
    and writes: "\<And>folder fileName fileContent.
      WriteFile e (calls m @ [CallGetEdgeStackConfig stackID]) folder fileName fileContent = None"
  shows "(stacks m stackID = None \<longrightarrow>
            (\<exists>folder fileName fileContent.
               snd (processStack e m stackID version) =
                 m\<lparr>stacks := (stacks m)(stackID \<mapsto>
                      \<lparr>ID = stackID, Name = cfgName cfg, Version = version,
                       FileFolder = folder, FileName = fileName,
                       Status = StatusPending, Action = actionDeploy,
                       RegistryCredentials = cfgRegistryCredentials cfg,
                       Namespace = cfgNamespace cfg, PrePullImage = cfgPrePullImage cfg,
                       RePullImage = cfgRePullImage cfg, Retries = 0\<rparr>),
                   calls := calls m @
                     [CallGetEdgeStackConfig stackID,
                      CallWriteFile folder fileName fileContent,
                      CallSetEdgeStackStatus stackID EdgeStackStatusAcknowledged '''']\<rparr>))
       \<and> (\<forall>stack. stacks m stackID = Some stack \<and> Version stack = version \<longrightarrow>
            processStack e m stackID version = (None, m))
       \<and> (\<forall>stack. stacks m stackID = Some stack \<and> ID stack = stackID
                  \<and> Version stack \<noteq> version \<longrightarrow>
            (\<exists>folder fileName fileContent.
               snd (processStack e m stackID version) =
                 m\<lparr>stacks := (stacks m)(stackID \<mapsto>
                      stack\<lparr>Action := actionUpdate, Version := version,
                            Status := StatusPending, Name := cfgName cfg,
                            RegistryCredentials := cfgRegistryCredentials cfg,
                            Namespace := cfgNamespace cfg,
                            PrePullImage := cfgPrePullImage cfg,
                            RePullImage := cfgRePullImage cfg,
                            FileFolder := folder, FileName := fileName\<rparr>),
                   calls := calls m @
                     [CallGetEdgeStackConfig stackID,
                      CallWriteFile folder fileName fileContent,
                      CallSetEdgeStackStatus stackID EdgeStackStatusAcknowledged '''']\<rparr>))"
proof -
  let ?folder = "EdgeStackFilesPath e @ ''/'' @ showInt stackID"
  let ?fileName = "if engineType m = EngineTypeNomad then cfgName cfg @ ''.hcl''
                   else if engineType m = EngineTypeKubernetes then cfgName cfg @ ''.yml''
                   else ''docker-compose.yml''"
  let ?fileContent = "if engineType m = EngineTypeKubernetes \<and> cfgRegistryCredentials cfg \<noteq> []
                      then AddImagePullSecrets e (cfgFileContent cfg) (cfgRegistryCredentials cfg)
                      else cfgFileContent cfg"
  have unknown: "snd (processStack e m stackID version) =
      m\<lparr>stacks := (stacks m)(stackID \<mapsto>
           \<lparr>ID = stackID, Name = cfgName cfg, Version = version,
            FileFolder = ?folder, FileName = ?fileName,
            Status = StatusPending, Action = actionDeploy,
            RegistryCredentials = cfgRegistryCredentials cfg,
            Namespace = cfgNamespace cfg, PrePullImage = cfgPrePullImage cfg,
            RePullImage = cfgRePullImage cfg, Retries = 0\<rparr>),
        calls := calls m @
          [CallGetEdgeStackConfig stackID,
           CallWriteFile ?folder ?fileName ?fileContent,
           CallSetEdgeStackStatus stackID EdgeStackStatusAcknowledged '''']\<rparr>"
    if "stacks m stackID = None"
    using that fetch writes
    by (simp add: processStack_def fetchAndWrite_def writeBack_def Let_def)
  have same: "processStack e m stackID version = (None, m)"
    if "stacks m stackID = Some stack" "Version stack = version" for stack
    using that by (simp add: processStack_def)
  have changed: "snd (processStack e m stackID version) =
      m\<lparr>stacks := (stacks m)(stackID \<mapsto>
           stack\<lparr>Action := actionUpdate, Version := version,
                 Status := StatusPending, Name := cfgName cfg,
                 RegistryCredentials := cfgRegistryCredentials cfg,
                 Namespace := cfgNamespace cfg,
                 PrePullImage := cfgPrePullImage cfg,
                 RePullImage := cfgRePullImage cfg,
                 FileFolder := ?folder, FileName := ?fileName\<rparr>),
        calls := calls m @
          [CallGetEdgeStackConfig stackID,
           CallWriteFile ?folder ?fileName ?fileContent,
           CallSetEdgeStackStatus stackID EdgeStackStatusAcknowledged '''']\<rparr>"
    if "stacks m stackID = Some stack" "ID stack = stackID" "Version stack \<noteq> version"
    for stack
    using that fetch writes
    by (simp add: processStack_def fetchAndWrite_def writeBack_def Let_def)
  show ?thesis
    using unknown same changed by blast
qed

theorem processStack_transitions_witness:
  "stacks NewStackManager 7 = None
   \<and> (\<exists>folder fileName fileContent.
         snd (processStack calmEnv NewStackManager 7 1) =
           NewStackManager\<lparr>stacks := (stacks NewStackManager)(7 \<mapsto>
                \<lparr>ID = 7, Name = cfgName webConfig, Version = 1,
                 FileFolder = folder, FileName = fileName,
                 Status = StatusPending, Action = actionDeploy,
                 RegistryCredentials = cfgRegistryCredentials webConfig,
                 Namespace = cfgNamespace webConfig,
                 PrePullImage = cfgPrePullImage webConfig,
                 RePullImage = cfgRePullImage webConfig, Retries = 0\<rparr>),
             calls := calls NewStackManager @
               [CallGetEdgeStackConfig 7,
                CallWriteFile folder fileName fileContent,
                CallSetEdgeStackStatus 7 EdgeStackStatusAcknowledged '''']\<rparr>)
   \<and> stacks webManager 7 = Some webStack \<and> Version webStack = 1
   \<and> processStack calmEnv webManager 7 1 = (None, webManager)
   \<and> ID webStack = 7 \<and> Version webStack \<noteq> 2
   \<and> (\<exists>folder fileName fileContent.
         snd (processStack calmEnv webManager 7 2) =
           webManager\<lparr>stacks := (stacks webManager)(7 \<mapsto>
                webStack\<lparr>Action := actionUpdate, Version := 2,
                      Status := StatusPending, Name := cfgName webConfig,
                      RegistryCredentials := cfgRegistryCredentials webConfig,
                      Namespace := cfgNamespace webConfig,
                      PrePullImage := cfgPrePullImage webConfig,
                      RePullImage := cfgRePullImage webConfig,
                      FileFolder := folder, FileName := fileName\<rparr>),
             calls := calls webManager @
               [CallGetEdgeStackConfig 7,
                CallWriteFile folder fileName fileContent,
                CallSetEdgeStackStatus 7 EdgeStackStatusAcknowledged '''']\<rparr>)"
proof -
  have fetch: "GetEdgeStackConfig calmEnv (calls m) 7 = Inr webConfig" for m
    by (simp add: calmEnv_def)
  have writes: "WriteFile calmEnv (calls m @ [CallGetEdgeStackConfig 7]) folder fileName
      fileContent = None" for m folder fileName fileContent
    by (simp add: calmEnv_def)
  have absent: "stacks NewStackManager 7 = None"
    by (simp add: NewStackManager_def)
  have present: "stacks webManager 7 = Some webStack"
    by (simp add: webManager_def)
  have fields: "ID webStack = 7" "Version webStack = 1" "Version webStack \<noteq> 2"
    by (simp_all add: webStack_def)
  show ?thesis
    using processStack_transitions [OF fetch writes, of NewStackManager 1]
      processStack_transitions [OF fetch writes, of webManager 1]
      processStack_transitions [OF fetch writes, of webManager 2]
      absent present fields
    by blast
qed

section \<open>The manifest on disk\<close>

lemma showInt_42: "showInt 42 = ''42''"
  by (simp add: showInt_def showNat.simps)

text \<open>
  Claim C4. Whenever the manager materializes a stack, from a snapshot entry
  (\<open>processStack\<close>) or from a pushed stack (\<open>buildDeployerParams\<close>), the folder is
  \<open>EdgeStackFilesPath/<stack id>\<close> and the file name depends on the engine kind and the
  stack name only: \<open>docker-compose.yml\<close> for DockerStandalone and DockerSwarm,
  \<open><name>.yml\<close> for Kubernetes, \<open><name>.hcl\<close> for Nomad. The manifest is written
  under that folder and name, and the record stored carries them.
\<close>

theorem manifest_file_law:
  assumes folder: "folder = EdgeStackFilesPath e @ ''/'' @ showInt stackID"
    and fileName: "fileName =
      (case engineType m of
         EngineTypeDockerStandalone \<Rightarrow> ''docker-compose.yml''
       | EngineTypeDockerSwarm \<Rightarrow> ''docker-compose.yml''
       | EngineTypeKubernetes \<Rightarrow> stackName @ ''.yml''
       | EngineTypeNomad \<Rightarrow> stackName @ ''.hcl''
       | EngineTypeZero \<Rightarrow> ''docker-compose.yml'')"
  shows "(GetEdgeStackConfig e (calls m) stackID = Inr cfg \<and> cfgName cfg = stackName
            \<and> (\<forall>stack. stacks m stackID = Some stack \<longrightarrow>
                   ID stack = stackID \<and> Version stack \<noteq> version) \<longrightarrow>
          (\<exists>fileContent rest.
             calls (snd (processStack e m stackID version)) =
               calls m @ CallGetEdgeStackConfig stackID
                 # CallWriteFile folder fileName fileContent # rest
             \<and> (WriteFile e (calls m @ [CallGetEdgeStackConfig stackID]) folder fileName
                    fileContent = None \<longrightarrow>
                  (\<exists>stack'. stacks (snd (processStack e m stackID version)) stackID = Some stack'
                     \<and> Name stack' = stackName \<and> FileFolder stack' = folder
                     \<and> FileName stack' = fileName))))
       \<and> (dataID stackData = stackID \<and> dataName stackData = stackName \<longrightarrow>
          (\<exists>fileContent.
             calls (snd (buildDeployerParams e m stackData False)) =
               calls m @ [CallWriteFile folder fileName fileContent])
          \<and> (fst (buildDeployerParams e m stackData delete) = None
               \<and> (\<forall>stack. stacks m stackID = Some stack \<longrightarrow>
                      ID stack = stackID
                      \<and> (delete \<or> Version stack \<noteq> dataVersion stackData)) \<longrightarrow>
              (\<exists>stack'. stacks (snd (buildDeployerParams e m stackData delete)) stackID
                          = Some stack'
                 \<and> Name stack' = stackName \<and> FileFolder stack' = folder
                 \<and> FileName stack' = fileName)))"
proof -
  have A: "\<exists>fileContent rest.
             calls (snd (processStack e m stackID version)) =
               calls m @ CallGetEdgeStackConfig stackID
                 # CallWriteFile folder fileName fileContent # rest
             \<and> (WriteFile e (calls m @ [CallGetEdgeStackConfig stackID]) folder fileName
                    fileContent = None \<longrightarrow>
                  (\<exists>stack'. stacks (snd (processStack e m stackID version)) stackID = Some stack'
                     \<and> Name stack' = stackName \<and> FileFolder stack' = folder
                     \<and> FileName stack' = fileName))"
    if "GetEdgeStackConfig e (calls m) stackID = Inr cfg" "cfgName cfg = stackName"
      "\<forall>stack. stacks m stackID = Some stack \<longrightarrow> ID stack = stackID \<and> Version stack \<noteq> version"
    using that folder fileName
    by (cases "stacks m stackID"; cases "engineType m")
       (auto simp: processStack_def fetchAndWrite_def writeBack_def Let_def
             split: option.splits)
  have B: "\<exists>fileContent.
             calls (snd (buildDeployerParams e m stackData False)) =
               calls m @ [CallWriteFile folder fileName fileContent]"
    if "dataID stackData = stackID" "dataName stackData = stackName"
    using that folder fileName
    by (cases "engineType m")
       (auto simp: buildDeployerParams_def Let_def split: option.splits)
  have C: "\<exists>stack'. stacks (snd (buildDeployerParams e m stackData delete)) stackID
                          = Some stack'
                 \<and> Name stack' = stackName \<and> FileFolder stack' = folder
                 \<and> FileName stack' = fileName"
    if "dataID stackData = stackID" "dataName stackData = stackName"
      "fst (buildDeployerParams e m stackData delete) = None"
      "\<forall>stack. stacks m stackID = Some stack \<longrightarrow>
          ID stack = stackID \<and> (delete \<or> Version stack \<noteq> dataVersion stackData)"
    using that folder fileName
    by (cases "engineType m"; cases "stacks m stackID")
       (auto simp: buildDeployerParams_def Let_def split: option.splits if_splits)
  show ?thesis
    using A B C by blast
qed

theorem manifest_file_law_witness:
  "(\<exists>fileContent rest.
      calls (snd (processStack calmEnv kubeManager 42 1)) =
        calls kubeManager @ CallGetEdgeStackConfig 42
          # CallWriteFile ''stacks/42'' ''web.yml'' fileContent # rest
      \<and> (\<exists>stack'. stacks (snd (processStack calmEnv kubeManager 42 1)) 42 = Some stack'
            \<and> Name stack' = ''web'' \<and> FileFolder stack' = ''stacks/42''
            \<and> FileName stack' = ''web.yml''))
   \<and> (\<exists>fileContent.
         calls (snd (buildDeployerParams calmEnv kubeManager webData False)) =
           calls kubeManager @ [CallWriteFile ''stacks/42'' ''web.yml'' fileContent])
   \<and> (\<exists>stack'. stacks (snd (buildDeployerParams calmEnv kubeManager webData True)) 42
                = Some stack'
         \<and> Name stack' = ''web'' \<and> FileFolder stack' = ''stacks/42''
         \<and> FileName stack' = ''web.yml'')"
proof -
  have folder: "''stacks/42'' = EdgeStackFilesPath calmEnv @ ''/'' @ showInt 42"
    by (simp add: calmEnv_def showInt_42)
  have fileName: "''web.yml'' =
      (case engineType kubeManager of
         EngineTypeDockerStandalone \<Rightarrow> ''docker-compose.yml''
       | EngineTypeDockerSwarm \<Rightarrow> ''docker-compose.yml''
       | EngineTypeKubernetes \<Rightarrow> ''web'' @ ''.yml''
       | EngineTypeNomad \<Rightarrow> ''web'' @ ''.hcl''
       | EngineTypeZero \<Rightarrow> ''docker-compose.yml'')"
    by (simp add: kubeManager_def)
  have fetch: "GetEdgeStackConfig calmEnv (calls kubeManager) 42 = Inr webConfig"
    "cfgName webConfig = ''web''"
    by (simp_all add: calmEnv_def webConfig_def)
  have absent: "stacks kubeManager 42 = None"
    by (simp add: kubeManager_def)
  have writes: "WriteFile calmEnv tr f n c = None" for tr f n c
    by (simp add: calmEnv_def)
  have data: "dataID webData = 42" "dataName webData = ''web''"
    by (simp_all add: webData_def)
  have ok: "fst (buildDeployerParams calmEnv kubeManager webData True) = None"
    by (simp add: buildDeployerParams_def kubeManager_def webData_def Let_def)
  show ?thesis
    using manifest_file_law [OF folder fileName, of webConfig 1 webData True]
      fetch absent writes data ok
    by auto
qed

section \<open>The worker: the pull phase\<close>

text \<open>
  Claim C2. The worker is about to run \<open>pullImages\<close> for a stack with \<open>PrePullImage\<close> or
  \<open>RePullImage\<close> set. The retry counter is incremented. When the new value is neither at
  most \<open>RetryInterval\<close> nor a multiple of it, the attempt is throttled: nothing is
  called, neither \<open>Pull\<close> nor \<open>Deploy\<close> nor a status report, and the status stays as
  it was. Otherwise \<open>Pull\<close> is called; when it fails with the counter below
  \<open>MaxRetries\<close> the status becomes Retry and nothing else is called; when it fails with
  the counter at \<open>MaxRetries\<close> or above the status becomes Error, an Error status with
  the error string is reported, and \<open>Deploy\<close> is not called.
\<close>

theorem pull_phase:
  assumes pc: "worker m = WPull k stackName stackFileLocation"
    and rec: "stacks m k = Some stack"
    and flag: "PrePullImage stack \<or> RePullImage stack"
    and retries: "retries = Retries stack + 1"
  shows "(\<exists>stack'. stacks (workerStep e m) k = Some stack' \<and> Retries stack' = retries)
       \<and> (\<not> (retries \<le> RetryInterval \<or> retries mod RetryInterval = 0) \<longrightarrow>
            workerStep e (workerStep e m) =
              m\<lparr>stacks := (stacks m)(k \<mapsto> stack\<lparr>Retries := retries\<rparr>),
                worker := WIdle\<rparr>)
       \<and> ((retries \<le> RetryInterval \<or> retries mod RetryInterval = 0)
            \<and> Pull e (calls m) stackName [stackFileLocation] = Some err
            \<and> retries < MaxRetries \<longrightarrow>
            workerStep e (workerStep e m) =
              m\<lparr>stacks := (stacks m)(k \<mapsto> stack\<lparr>Retries := retries, Status := StatusRetry\<rparr>),
                calls := calls m @ [CallPull k stackName [stackFileLocation]],
                worker := WIdle\<rparr>)
       \<and> ((retries \<le> RetryInterval \<or> retries mod RetryInterval = 0)
            \<and> Pull e (calls m) stackName [stackFileLocation] = Some err
            \<and> MaxRetries \<le> retries \<longrightarrow>
            workerStep e (workerStep e m) =
              m\<lparr>stacks := (stacks m)(k \<mapsto> stack\<lparr>Retries := retries, Status := StatusError\<rparr>),
                calls := calls m @ [CallPull k stackName [stackFileLocation],
                                    CallSetEdgeStackStatus (ID stack) EdgeStackStatusError err],
                worker := WIdle\<rparr>)"
  using pc rec flag retries
  by (auto simp: workerStep_def pullImages_def Let_def split: option.splits)

theorem pull_phase_witness:
  "workerStep stormEnv (workerStep stormEnv (pullingManager 720)) =
     (pullingManager 720)
       \<lparr>stacks := (stacks (pullingManager 720))(7 \<mapsto> webStack\<lparr>Retries := 721\<rparr>),
        worker := WIdle\<rparr>
   \<and> workerStep stormEnv (workerStep stormEnv (pullingManager 0)) =
     (pullingManager 0)
       \<lparr>stacks := (stacks (pullingManager 0))
          (7 \<mapsto> webStack\<lparr>Retries := 1, Status := StatusRetry\<rparr>),
        calls := calls (pullingManager 0)
          @ [CallPull 7 ''edge_web'' [''stacks/7/docker-compose.yml'']],
        worker := WIdle\<rparr>
   \<and> workerStep stormEnv (workerStep stormEnv (pullingManager 120959)) =
     (pullingManager 120959)
       \<lparr>stacks := (stacks (pullingManager 120959))
          (7 \<mapsto> webStack\<lparr>Retries := 120960, Status := StatusError\<rparr>),
        calls := calls (pullingManager 120959)
          @ [CallPull 7 ''edge_web'' [''stacks/7/docker-compose.yml''],
             CallSetEdgeStackStatus 7 EdgeStackStatusError ''pull failed''],
        worker := WIdle\<rparr>"
proof -
  have pc: "worker (pullingManager r) = WPull 7 ''edge_web'' ''stacks/7/docker-compose.yml''"
    for r
    by (simp add: pullingManager_def)
  have rec: "stacks (pullingManager r) 7 = Some (webStack\<lparr>Retries := r\<rparr>)" for r
    by (simp add: pullingManager_def)
  have flag: "PrePullImage (webStack\<lparr>Retries := r\<rparr>) \<or> RePullImage (webStack\<lparr>Retries := r\<rparr>)"
    for r
    by (simp add: webStack_def)
  have fails: "Pull stormEnv tr name files = Some ''pull failed''" for tr name files
    by (simp add: stormEnv_def)
  have ident: "ID (webStack\<lparr>Retries := r\<rparr>) = 7" for r
    by (simp add: webStack_def)
  have r1: "(721::int) = Retries (webStack\<lparr>Retries := 720\<rparr>) + 1"
    and r2: "(1::int) = Retries (webStack\<lparr>Retries := 0\<rparr>) + 1"
    and r3: "(120960::int) = Retries (webStack\<lparr>Retries := 120959\<rparr>) + 1"
    by simp_all
  show ?thesis
    using pull_phase [OF pc rec flag r1, of stormEnv "''pull failed''"]
      pull_phase [OF pc rec flag r2, of stormEnv "''pull failed''"]
      pull_phase [OF pc rec flag r3, of stormEnv "''pull failed''"]
      fails ident
    by (simp add: RetryInterval_def MaxRetries_def)
qed

section \<open>The worker: the removal of a stack\<close>

text \<open>
  Claim C7. The worker selects a pending stack whose action is Delete. It calls the
  deployer's \<open>Remove\<close>, then removes the manifest directory, then asks the coordinator to
  delete the status, stopping at the first failure. The record leaves the table exactly
  when the three succeed; when one of them fails the table is unchanged.
\<close>

theorem delete_phase:
  assumes first: "firstPending (stacks m) ks = Some k"
    and rec: "stacks m k = Some stack"
    and action: "Action stack = actionDelete"
    and keyed: "ID stack = k"
    and name: "stackName = ''edge_'' @ Name stack"
    and location: "stackFileLocation = FileFolder stack @ ''/'' @ FileName stack"
    and tr1: "tr1 = calls m @ [CallRemove k stackName [stackFileLocation]]"
    and tr2: "tr2 = tr1 @ [CallRemoveAll (filepathDir e stackFileLocation)]"
    and tr3: "tr3 = tr2 @ [CallDeleteEdgeStackStatus k]"
    and removed: "removed \<longleftrightarrow> Remove e (calls m) stackName [stackFileLocation] = None"
    and cleared: "cleared \<longleftrightarrow> RemoveAll e tr1 (filepathDir e stackFileLocation) = None"
    and forgotten: "forgotten \<longleftrightarrow> DeleteEdgeStackStatus e tr2 k = None"
  shows "(removed \<and> cleared \<and> forgotten \<longrightarrow>
            workerIteration e ks m =
              m\<lparr>stacks := (stacks m)(k := None), calls := tr3, worker := WIdle\<rparr>)
       \<and> (\<not> (removed \<and> cleared \<and> forgotten) \<longrightarrow>
            stacks (workerIteration e ks m) = stacks m)
       \<and> (\<not> removed \<longrightarrow> calls (workerIteration e ks m) = tr1)
       \<and> (removed \<and> \<not> cleared \<longrightarrow> calls (workerIteration e ks m) = tr2)
       \<and> (removed \<and> cleared \<and> \<not> forgotten \<longrightarrow> calls (workerIteration e ks m) = tr3)"
  using assms
  by (auto simp: workerIteration_def workerSelect_def nextPendingStack_def workerStep_def
        deleteStack_def Let_def split: option.splits)

theorem delete_phase_witness:
  "workerIteration calmEnv [7] goneManager =
     goneManager\<lparr>stacks := (stacks goneManager)(7 := None),
       calls := [CallRemove 7 ''edge_web'' [''stacks/7/docker-compose.yml''],
                 CallRemoveAll ''stacks'',
                 CallDeleteEdgeStackStatus 7],
       worker := WIdle\<rparr>
   \<and> stacks (workerIteration busyEnv [7] goneManager) = stacks goneManager
   \<and> calls (workerIteration busyEnv [7] goneManager) =
       [CallRemove 7 ''edge_web'' [''stacks/7/docker-compose.yml''], CallRemoveAll ''stacks'']"
proof -
  have first: "firstPending (stacks goneManager) [7] = Some 7"
    by (simp add: goneManager_def goneStack_def webStack_def)
  have rec: "stacks goneManager 7 = Some goneStack"
    by (simp add: goneManager_def)
  have action: "Action goneStack = actionDelete" and keyed: "ID goneStack = 7"
    by (simp_all add: goneStack_def webStack_def)
  have name: "''edge_web'' = ''edge_'' @ Name goneStack"
    and location: "''stacks/7/docker-compose.yml'' = FileFolder goneStack @ ''/'' @ FileName goneStack"
    by (simp_all add: goneStack_def webStack_def)
  have dir: "filepathDir calmEnv ''stacks/7/docker-compose.yml'' = ''stacks''"
    "filepathDir busyEnv ''stacks/7/docker-compose.yml'' = ''stacks''"
    by (simp_all add: busyEnv_def calmEnv_def)
  have empty: "calls goneManager = []"
    by (simp add: goneManager_def webManager_def)
  have calm: "Remove calmEnv tr n fs = None" "RemoveAll calmEnv tr p = None"
    "DeleteEdgeStackStatus calmEnv tr i = None" for tr n fs p i
    by (simp_all add: calmEnv_def)
  have busy: "Remove busyEnv tr n fs = None" "RemoveAll busyEnv tr p = Some ''directory busy''"
    for tr n fs p
    by (simp_all add: busyEnv_def calmEnv_def)
  show ?thesis
    using delete_phase [OF first rec action keyed name location refl refl refl refl refl refl,
        of calmEnv]
      delete_phase [OF first rec action keyed name location refl refl refl refl refl refl,
        of busyEnv]
      dir empty calm busy
    by simp
qed

section \<open>The credential query\<close>

lemma firstDeploying_sound:
  "firstDeploying t ks \<noteq> [] \<Longrightarrow>
   \<exists>k stack. t k = Some stack \<and> Status stack = StatusDeploying
     \<and> firstDeploying t ks = RegistryCredentials stack"
  by (induction ks) (auto split: option.splits if_splits)

lemma firstDeploying_found:
  "k \<in> set ks \<Longrightarrow> t k = Some stack \<Longrightarrow> Status stack = StatusDeploying \<Longrightarrow>
   \<exists>k' stack'. t k' = Some stack' \<and> Status stack' = StatusDeploying
     \<and> firstDeploying t ks = RegistryCredentials stack'"
  by (induction ks) (auto split: option.splits)

lemma firstDeploying_none:
  "\<forall>k stack. t k = Some stack \<longrightarrow> Status stack \<noteq> StatusDeploying \<Longrightarrow> firstDeploying t ks = []"
  by (induction ks) (auto split: option.splits)

text \<open>
  Claim C8. \<open>GetEdgeRegistryCredentials\<close>, visiting the keys of the table, returns a
  non-empty list only when some record is deploying; when some record is deploying it
  returns the credentials of a deploying record; when none is, it returns the empty list.
\<close>

theorem credentials_of_deploying:
  assumes visit: "set ks = dom (stacks m)"
  shows "(GetEdgeRegistryCredentials m ks \<noteq> [] \<longrightarrow>
            (\<exists>k stack. stacks m k = Some stack \<and> Status stack = StatusDeploying))
       \<and> ((\<exists>k stack. stacks m k = Some stack \<and> Status stack = StatusDeploying) \<longrightarrow>
            (\<exists>k stack. stacks m k = Some stack \<and> Status stack = StatusDeploying
               \<and> GetEdgeRegistryCredentials m ks = RegistryCredentials stack))
       \<and> (\<not> (\<exists>k stack. stacks m k = Some stack \<and> Status stack = StatusDeploying) \<longrightarrow>
            GetEdgeRegistryCredentials m ks = [])"
proof (intro conjI impI)
  assume "GetEdgeRegistryCredentials m ks \<noteq> []"
  then show "\<exists>k stack. stacks m k = Some stack \<and> Status stack = StatusDeploying"
    using firstDeploying_sound [of "stacks m" ks]
    by (auto simp: GetEdgeRegistryCredentials_def)
next
  assume "\<exists>k stack. stacks m k = Some stack \<and> Status stack = StatusDeploying"
  then obtain k stack where ks: "stacks m k = Some stack" "Status stack = StatusDeploying"
    by blast
  then have "k \<in> set ks"
    using visit by auto
  then show "\<exists>k stack. stacks m k = Some stack \<and> Status stack = StatusDeploying
      \<and> GetEdgeRegistryCredentials m ks = RegistryCredentials stack"
    using firstDeploying_found [of k ks "stacks m" stack] ks by (simp add: GetEdgeRegistryCredentials_def)
next
  assume "\<not> (\<exists>k stack. stacks m k = Some stack \<and> Status stack = StatusDeploying)"
  then show "GetEdgeRegistryCredentials m ks = []"
    using firstDeploying_none [of "stacks m" ks]
    by (auto simp: GetEdgeRegistryCredentials_def)
qed

theorem credentials_of_deploying_witness:
  "set [8, 7] = dom (stacks deployingManager)
   \<and> GetEdgeRegistryCredentials deployingManager [8, 7] \<noteq> []
   \<and> (\<exists>k stack. stacks deployingManager k = Some stack \<and> Status stack = StatusDeploying
         \<and> GetEdgeRegistryCredentials deployingManager [8, 7] = RegistryCredentials stack)
   \<and> set [7] = dom (stacks webManager)
   \<and> \<not> (\<exists>k stack. stacks webManager k = Some stack \<and> Status stack = StatusDeploying)
   \<and> GetEdgeRegistryCredentials webManager [7] = []"
proof -
  have visit: "set [8, 7] = dom (stacks deployingManager)"
    by (auto simp: deployingManager_def)
  have visit': "set [7] = dom (stacks webManager)"
    by (auto simp: webManager_def)
  have some: "GetEdgeRegistryCredentials deployingManager [8, 7] \<noteq> []"
    by (simp add: GetEdgeRegistryCredentials_def deployingManager_def webStack_def)
  have none: "\<not> (\<exists>k stack. stacks webManager k = Some stack \<and> Status stack = StatusDeploying)"
    by (auto simp: webManager_def webStack_def split: if_splits)
  show ?thesis
    using credentials_of_deploying [OF visit] credentials_of_deploying [OF visit']
      visit visit' some none
    by blast
qed

section \<open>Start with an interval that does not parse\<close>

lemma fetchAndWrite_calls:
  "ID stack = k \<Longrightarrow>
   \<exists>tr. calls (snd (fetchAndWrite e m stackID known stack)) =
     calls m @ CallGetEdgeStackConfig k # tr"
  by (cases known)
     (simp_all add: fetchAndWrite_def writeBack_def Let_def split: sum.splits option.splits)

lemma fetchAndWrite_calls_weak:
  "\<exists>tr. calls (snd (fetchAndWrite e m stackID known stack)) = calls m @ tr"
  using fetchAndWrite_calls [OF refl, of e m stackID known stack] by auto

lemma processStack_calls:
  "\<exists>tr. calls (snd (processStack e m stackID version)) = calls m @ tr"
  by (cases "stacks m stackID") (simp_all add: processStack_def fetchAndWrite_calls_weak)

lemma processStack_unknown_calls:
  "stacks m stackID = None \<Longrightarrow>
   \<exists>tr. calls (snd (processStack e m stackID version)) =
     calls m @ CallGetEdgeStackConfig stackID # tr"
  by (simp add: processStack_def fetchAndWrite_calls)

lemma processStacks_calls:
  "\<exists>tr. calls (snd (processStacks e m entries)) = calls m @ tr"
proof (induction entries arbitrary: m)
  case Nil
  then show ?case by simp
next
  case (Cons entry entries)
  obtain stackID version where entry: "entry = (stackID, version)"
    by (cases entry)
  obtain r m' where step: "processStack e m stackID version = (r, m')"
    by (cases "processStack e m stackID version")
  obtain tr where tr: "calls m' = calls m @ tr"
    using processStack_calls [of e m stackID version] step by auto
  show ?case
  proof (cases r)
    case None
    then show ?thesis
      using Cons.IH [of m'] entry step tr by auto
  next
    case (Some err)
    then show ?thesis
      using entry step tr by auto
  qed
qed

lemma UpdateStacksStatus_unknown_calls:
  assumes "isEnabled m" "stacks m stackID = None"
  shows "\<exists>tr. calls (snd (UpdateStacksStatus e m ((stackID, version) # rest))) =
     calls m @ CallGetEdgeStackConfig stackID # tr"
proof -
  obtain r m' where step: "processStack e m stackID version = (r, m')"
    by (cases "processStack e m stackID version")
  obtain tr where tr: "calls m' = calls m @ CallGetEdgeStackConfig stackID # tr"
    using processStack_unknown_calls [OF assms(2), of e version] step by auto
  obtain tr' where tr': "calls (snd (processStacks e m' rest)) = calls m' @ tr'"
    using processStacks_calls by blast
  show ?thesis
  proof (cases r)
    case (Some err)
    then show ?thesis
      using assms(1) step tr by (simp add: UpdateStacksStatus_def)
  next
    case None
    obtain r' m'' where rest: "processStacks e m' rest = (r', m'')"
      by (cases "processStacks e m' rest")
    then show ?thesis
      using assms(1) step tr tr' None
      by (cases r') (simp_all add: UpdateStacksStatus_def processRemovedStacks_def)
  qed
qed

text \<open>
  Claim C10. \<open>Start\<close> is called on a manager that is not running and the queue sleep
  interval does not parse. \<open>Start\<close> returns the parse error; the manager is enabled and
  its stop channel open, no worker has been launched; a second \<open>Start\<close> returns no
  error and changes nothing, so it launches no worker either; and \<open>UpdateStacksStatus\<close>,
  which did nothing on a disabled manager, now asks the coordinator for the
  configuration of an unknown stack.
\<close>

theorem Start_parse_failure:
  assumes idle: "\<not> stopSignal m"
    and parse: "ParseDuration e (EdgeStackQueueSleepInterval e) = Inl err"
    and started: "m' = snd (Start e m)"
  shows "Start e m = (Some err, m\<lparr>isEnabled := True, stopSignal := True\<rparr>)
       \<and> isEnabled m' \<and> stopSignal m' \<and> workers m' = workers m
       \<and> Start e m' = (None, m')
       \<and> (\<not> isEnabled m \<longrightarrow> UpdateStacksStatus e m pollResponseStacks = (None, m))
       \<and> (stacks m stackID = None \<longrightarrow>
            (\<exists>tr. calls (snd (UpdateStacksStatus e m' ((stackID, version) # rest))) =
                    calls m' @ CallGetEdgeStackConfig stackID # tr))"
proof -
  have m': "m' = m\<lparr>isEnabled := True, stopSignal := True\<rparr>"
    using idle parse started by (simp add: Start_def)
  have "Start e m = (Some err, m\<lparr>isEnabled := True, stopSignal := True\<rparr>)"
    using idle parse by (simp add: Start_def)
  moreover have "isEnabled m'" "stopSignal m'" "workers m' = workers m"
    using m' by simp_all
  moreover have "Start e m' = (None, m')"
    using m' by (simp add: Start_def)
  moreover have "UpdateStacksStatus e m pollResponseStacks = (None, m)" if "\<not> isEnabled m"
    using that by (simp add: UpdateStacksStatus_def)
  moreover have "\<exists>tr. calls (snd (UpdateStacksStatus e m' ((stackID, version) # rest))) =
      calls m' @ CallGetEdgeStackConfig stackID # tr" if "stacks m stackID = None"
    using UpdateStacksStatus_unknown_calls [of m' stackID e version rest] that m' by simp
  ultimately show ?thesis
    by blast
qed

theorem Start_parse_failure_witness:
  "\<not> stopSignal NewStackManager
   \<and> Start brokenEnv NewStackManager =
       (Some ''time: invalid duration'',
        NewStackManager\<lparr>isEnabled := True, stopSignal := True\<rparr>)
   \<and> isEnabled (snd (Start brokenEnv NewStackManager))
   \<and> stopSignal (snd (Start brokenEnv NewStackManager))
   \<and> workers (snd (Start brokenEnv NewStackManager)) = 0
   \<and> Start brokenEnv (snd (Start brokenEnv NewStackManager)) =
       (None, snd (Start brokenEnv NewStackManager))
   \<and> UpdateStacksStatus brokenEnv NewStackManager [(7, 1)] = (None, NewStackManager)
   \<and> (\<exists>tr. calls (snd (UpdateStacksStatus brokenEnv (snd (Start brokenEnv NewStackManager))
                         [(7, 1)])) =
              calls (snd (Start brokenEnv NewStackManager)) @ CallGetEdgeStackConfig 7 # tr)"
proof -
  have idle: "\<not> stopSignal NewStackManager" and disabled: "\<not> isEnabled NewStackManager"
    and absent: "stacks NewStackManager 7 = None" and none: "workers NewStackManager = 0"
    by (simp_all add: NewStackManager_def)
  have parse: "ParseDuration brokenEnv (EdgeStackQueueSleepInterval brokenEnv) =
      Inl ''time: invalid duration''"
    by (simp add: brokenEnv_def)
  show ?thesis
    using Start_parse_failure [OF idle parse refl, of "[(7, 1)]" 7 1 "[]"]
      idle disabled absent none
    by auto
qed

section \<open>A snapshot that fails half way\<close>

lemma processStacks_append:
  "processStacks e m (pre @ rest) =
     (case processStacks e m pre of
        (Some err, m') \<Rightarrow> (Some err, m')
      | (None, m') \<Rightarrow> processStacks e m' rest)"
  by (induction pre arbitrary: m) (auto split: prod.splits option.splits)

lemma fetchAndWrite_fetch_fails:
  "GetEdgeStackConfig e (calls m) (ID stack) = Inl err \<Longrightarrow>
   fetchAndWrite e m stackID known stack =
     (Some err, writeBack known stackID stack
        (m\<lparr>calls := calls m @ [CallGetEdgeStackConfig (ID stack)]\<rparr>))"
  by (simp add: fetchAndWrite_def)

lemma fetchAndWrite_write_fails:
  "GetEdgeStackConfig e (calls m) (ID stack) = Inr cfg \<Longrightarrow>
   \<forall>folder fileName fileContent.
     WriteFile e (calls m @ [CallGetEdgeStackConfig (ID stack)]) folder fileName fileContent
       = Some err \<Longrightarrow>
   \<exists>folder fileName fileContent stack'.
     fetchAndWrite e m stackID known stack =
       (Some err, writeBack known stackID stack'
          (m\<lparr>calls := calls m @ [CallGetEdgeStackConfig (ID stack),
                                  CallWriteFile folder fileName fileContent]\<rparr>))"
  by (simp add: fetchAndWrite_def Let_def) blast

lemma processStack_fails:
  assumes entry: "\<forall>stack. stacks m stackID = Some stack \<longrightarrow>
        ID stack = stackID \<and> Version stack \<noteq> version"
    and failure: "GetEdgeStackConfig e (calls m) stackID = Inl err
       \<or> (\<exists>cfg. GetEdgeStackConfig e (calls m) stackID = Inr cfg
            \<and> (\<forall>folder fileName fileContent.
                  WriteFile e (calls m @ [CallGetEdgeStackConfig stackID]) folder fileName
                    fileContent = Some err))"
  shows "\<exists>known stack' tr.
           processStack e m stackID version =
             (Some err, writeBack known stackID stack' (m\<lparr>calls := calls m @ tr\<rparr>))
           \<and> (known \<longleftrightarrow> stacks m stackID \<noteq> None)
           \<and> (tr = [CallGetEdgeStackConfig stackID]
                \<or> (\<exists>folder fileName fileContent.
                      tr = [CallGetEdgeStackConfig stackID,
                            CallWriteFile folder fileName fileContent]))"
proof (cases "stacks m stackID")
  case None
  let ?new = "\<lparr>ID = stackID, Name = [], Version = version, FileFolder = [], FileName = [],
             Status = StatusPending, Action = actionDeploy, RegistryCredentials = [],
             Namespace = [], PrePullImage = False, RePullImage = False, Retries = 0\<rparr>"
  have p: "processStack e m stackID version = fetchAndWrite e m stackID False ?new"
    using None by (simp add: processStack_def)
  from failure show ?thesis
  proof
    assume "GetEdgeStackConfig e (calls m) stackID = Inl err"
    then show ?thesis
      using fetchAndWrite_fetch_fails [of e m ?new err stackID False] p None
      by (simp add: writeBack_def) blast
  next
    assume "\<exists>cfg. GetEdgeStackConfig e (calls m) stackID = Inr cfg
            \<and> (\<forall>folder fileName fileContent.
                  WriteFile e (calls m @ [CallGetEdgeStackConfig stackID]) folder fileName
                    fileContent = Some err)"
    then show ?thesis
      using fetchAndWrite_write_fails [of e m ?new _ err stackID False] p None
      by (simp add: writeBack_def) blast
  qed
next
  case (Some stack)
  let ?upd = "stack\<lparr>Action := actionUpdate, Version := version, Status := StatusPending\<rparr>"
  have idv: "ID stack = stackID" "Version stack \<noteq> version"
    using entry Some by auto
  have p: "processStack e m stackID version = fetchAndWrite e m stackID True ?upd"
    using Some idv by (simp add: processStack_def)
  from failure show ?thesis
  proof
    assume "GetEdgeStackConfig e (calls m) stackID = Inl err"
    then show ?thesis
      using fetchAndWrite_fetch_fails [of e m ?upd err stackID True] p Some idv
      by simp blast
  next
    assume "\<exists>cfg. GetEdgeStackConfig e (calls m) stackID = Inr cfg
            \<and> (\<forall>folder fileName fileContent.
                  WriteFile e (calls m @ [CallGetEdgeStackConfig stackID]) folder fileName
                    fileContent = Some err)"
    then show ?thesis
      using fetchAndWrite_write_fails [of e m ?upd _ err stackID True] p Some idv
      by simp blast
  qed
qed

text \<open>
  Claim C6. The manager is enabled and the entries of a snapshot are visited in some
  order. The entries before \<open>(stackID, version)\<close> are processed without error; for
  that entry, which needs its configuration (the stack is unknown, or known with another
  version), the coordinator fails to deliver the configuration, or the manifest cannot be
  written. Then \<open>UpdateStacksStatus\<close> returns that very error. The manager is left as the
  entries before made it, up to the record of the failing entry and the calls made for
  it: the records of the other stacks are as they were after the entries before, the
  entries after cause no call and no change, and no record is marked for deletion.
\<close>

theorem snapshot_stops_at_first_error:
  assumes enabled: "isEnabled m"
    and before: "processStacks e m pre = (None, m1)"
    and entry: "\<forall>stack. stacks m1 stackID = Some stack \<longrightarrow>
        ID stack = stackID \<and> Version stack \<noteq> version"
    and failure: "GetEdgeStackConfig e (calls m1) stackID = Inl err
       \<or> (\<exists>cfg. GetEdgeStackConfig e (calls m1) stackID = Inr cfg
            \<and> (\<forall>folder fileName fileContent.
                  WriteFile e (calls m1 @ [CallGetEdgeStackConfig stackID]) folder fileName
                    fileContent = Some err))"
    and result: "m' = snd (UpdateStacksStatus e m (pre @ (stackID, version) # post))"
  shows "UpdateStacksStatus e m (pre @ (stackID, version) # post) =
           (Some err, snd (processStack e m1 stackID version))
       \<and> (\<forall>k. k \<noteq> stackID \<longrightarrow> stacks m' k = stacks m1 k)
       \<and> (stacks m1 stackID = None \<longrightarrow> stacks m' stackID = None)
       \<and> (calls m' = calls m1 @ [CallGetEdgeStackConfig stackID]
            \<or> (\<exists>folder fileName fileContent.
                  calls m' = calls m1 @ [CallGetEdgeStackConfig stackID,
                                         CallWriteFile folder fileName fileContent]))"
proof -
  obtain known stack' tr where
    p: "processStack e m1 stackID version =
          (Some err, writeBack known stackID stack' (m1\<lparr>calls := calls m1 @ tr\<rparr>))"
    and known: "known \<longleftrightarrow> stacks m1 stackID \<noteq> None"
    and tr: "tr = [CallGetEdgeStackConfig stackID]
                \<or> (\<exists>folder fileName fileContent.
                      tr = [CallGetEdgeStackConfig stackID,
                            CallWriteFile folder fileName fileContent])"
    using processStack_fails [OF entry failure] by blast
  have u: "UpdateStacksStatus e m (pre @ (stackID, version) # post) =
      (Some err, writeBack known stackID stack' (m1\<lparr>calls := calls m1 @ tr\<rparr>))"
    using enabled before p by (simp add: UpdateStacksStatus_def processStacks_append)
  then have m': "m' = writeBack known stackID stack' (m1\<lparr>calls := calls m1 @ tr\<rparr>)"
    using result by simp
  have "UpdateStacksStatus e m (pre @ (stackID, version) # post) =
           (Some err, snd (processStack e m1 stackID version))"
    using u p by simp
  moreover have "\<forall>k. k \<noteq> stackID \<longrightarrow> stacks m' k = stacks m1 k"
    using m' by (simp add: writeBack_def)
  moreover have "stacks m1 stackID = None \<longrightarrow> stacks m' stackID = None"
    using m' known by (simp add: writeBack_def)
  moreover have "calls m' = calls m1 @ tr"
    using m' by (simp add: writeBack_def)
  ultimately show ?thesis
    using tr by auto
qed

theorem snapshot_stops_at_first_error_witness:
  "isEnabled kubeManager
   \<and> fst (processStacks fullDiskEnv kubeManager [(7, 1)]) = None
   \<and> stacks (snd (processStacks fullDiskEnv kubeManager [(7, 1)])) 8 = None
   \<and> UpdateStacksStatus fullDiskEnv kubeManager [(7, 1), (8, 1), (9, 1)] =
       (Some ''no space left on device'',
        snd (processStack fullDiskEnv (snd (processStacks fullDiskEnv kubeManager [(7, 1)])) 8 1))
   \<and> stacks (snd (UpdateStacksStatus fullDiskEnv kubeManager [(7, 1), (8, 1), (9, 1)])) 7 =
       stacks (snd (processStacks fullDiskEnv kubeManager [(7, 1)])) 7
   \<and> stacks (snd (UpdateStacksStatus fullDiskEnv kubeManager [(7, 1), (8, 1), (9, 1)])) 8 = None
   \<and> stacks (snd (UpdateStacksStatus fullDiskEnv kubeManager [(7, 1), (8, 1), (9, 1)])) 9 = None"
proof -
  obtain m1 where m1: "processStacks fullDiskEnv kubeManager [(7, 1)] = (None, m1)"
    and c1: "length (calls m1) = 3" and s1: "stacks m1 8 = None" "stacks m1 9 = None"
    by (simp add: processStack_def fetchAndWrite_def writeBack_def Let_def fullDiskEnv_def
          calmEnv_def kubeManager_def)
  have enabled: "isEnabled kubeManager"
    by (simp add: kubeManager_def)
  have entry: "\<forall>stack. stacks m1 8 = Some stack \<longrightarrow> ID stack = 8 \<and> Version stack \<noteq> 1"
    using s1 by simp
  have failure: "GetEdgeStackConfig fullDiskEnv (calls m1) 8 = Inl ''no space left on device''
       \<or> (\<exists>cfg. GetEdgeStackConfig fullDiskEnv (calls m1) 8 = Inr cfg
            \<and> (\<forall>folder fileName fileContent.
                  WriteFile fullDiskEnv (calls m1 @ [CallGetEdgeStackConfig 8]) folder fileName
                    fileContent = Some ''no space left on device''))"
    using c1 by (simp add: fullDiskEnv_def calmEnv_def)
  show ?thesis
    using snapshot_stops_at_first_error [OF enabled m1 entry failure refl, of "[(9, 1)]"]
      m1 s1 enabled
    by auto
qed


end
